theory Spec2Isabelle
  imports Main "HOL-Library.Multiset"
begin

section \<open>Errors\<close>

text \<open>
  Go errors as values. \<open>ErrorType s\<close> is a value of the string type \<open>errorType\<close>,
  \<open>ErrorString s\<close> an error made by \<open>errors.New\<close> or by \<open>fmt.Errorf\<close> without \<open>%w\<close>,
  and \<open>WrapError msg err\<close> the result of \<open>xerrors.Errorf\<close> with a format ending in
  \<open>": %w"\<close>: \<open>msg\<close> is the formatted prefix and \<open>err\<close> the wrapped error.
  A \<open>nil\<close> error is \<open>None\<close> of \<open>error option\<close>.
\<close>

datatype error =
    ErrorType string
  | ErrorString string
  | WrapError string error

definition errInvalidEncoding :: error where
  "errInvalidEncoding = ErrorType ''InvalidEncoding''"

definition errUnboundEventType :: error where
  "errUnboundEventType = ErrorType ''UnboundEventType''"

definition errAggregateNotFound :: error where
  "errAggregateNotFound = ErrorType ''AggregateNotFound''"

definition errUnhandledEvent :: error where
  "errUnhandledEvent = ErrorType ''UnhandledEvent''"

text \<open>The method \<open>Error()\<close>: an \<open>errorType\<close> prints its own string.\<close>

fun Error :: "error \<Rightarrow> string" where
  "Error (ErrorType e) = e"
| "Error (ErrorString s) = s"
| "Error (WrapError msg err) = msg @ '': '' @ Error err"

text \<open>
  \<open>xerrors.Is\<close> walks the chain of wrapped errors and compares each link with the
  target. Only \<open>errorType\<close> targets are used by the package.
\<close>

fun xerrors_Is :: "error \<Rightarrow> error \<Rightarrow> bool" where
  "xerrors_Is (WrapError msg err) target =
     (if WrapError msg err = target then True else xerrors_Is err target)"
| "xerrors_Is (ErrorType e) target = (ErrorType e = target)"
| "xerrors_Is (ErrorString s) target = (ErrorString s = target)"

fun IsNotFoundError :: "error option \<Rightarrow> bool" where
  "IsNotFoundError None = False"
| "IsNotFoundError (Some err) = xerrors_Is err errAggregateNotFound"

section \<open>Records and the in-memory store\<close>

text \<open>
  A \<open>Record\<close> is a version and the serialized event. Go's \<open>int\<close> is taken as \<open>int\<close>:
  the package only compares versions. \<open>[]byte\<close> is a \<open>string\<close>, a list of bytes.
\<close>

record Record =
  Version :: int
  Data :: string

type_synonym History = "Record list"

text \<open>\<open>History.Less\<close>, the order handed to \<open>sort.Sort\<close>.\<close>

definition History_Less :: "Record \<Rightarrow> Record \<Rightarrow> bool" where
  "History_Less a b = (Version a < Version b)"

text \<open>
  \<open>sort.Sort\<close> is the standard library's: it leaves a permutation that is ordered by
  \<open>Less\<close>. It is taken here as the insertion sort on the version, which is the one
  such permutation whenever the versions are distinct.
\<close>

definition sort_Sort :: "History \<Rightarrow> History" where
  "sort_Sort h = sort_key Version h"

text \<open>The store's map from aggregate id to history; the mutex is not modelled.\<close>

record memoryStore =
  eventsByID :: "string \<rightharpoonup> History"

definition newMemoryStore :: memoryStore where
  "newMemoryStore = \<lparr>eventsByID = Map.empty\<rparr>"

definition memoryStore_Save ::
  "memoryStore \<Rightarrow> string \<Rightarrow> Record list \<Rightarrow> error option \<times> memoryStore" where
  "memoryStore_Save m aggregateID records =
     (let m1 = (case eventsByID m aggregateID of
                  None \<Rightarrow> m\<lparr>eventsByID := (eventsByID m)(aggregateID \<mapsto> [])\<rparr>
                | Some _ \<Rightarrow> m);
          history = (case eventsByID m1 aggregateID of
                       None \<Rightarrow> records
                     | Some h \<Rightarrow> h @ records);
          history = sort_Sort history
      in (None, m1\<lparr>eventsByID := (eventsByID m1)(aggregateID \<mapsto> history)\<rparr>))"

text \<open>
  \<open>Load\<close> builds the filtered \<open>history\<close> and then returns \<open>all\<close>, as the source does
  in its last line.
\<close>

definition memoryStore_Load ::
  "memoryStore \<Rightarrow> string \<Rightarrow> int \<Rightarrow> int \<Rightarrow> error + History" where
  "memoryStore_Load m aggregateID fromVersion toVersion =
     (case eventsByID m aggregateID of
        None \<Rightarrow>
          Inl (WrapError (''no aggregate found with id, '' @ aggregateID) errAggregateNotFound)
      | Some all \<Rightarrow>
          (let history =
                 filter (\<lambda>record. Version record \<ge> fromVersion \<and>
                                   (toVersion = 0 \<or> Version record \<le> toVersion)) all
           in Inr all))"

text \<open>The contract of \<open>Store.Load\<close> in the words of its documentation: the range filter.\<close>

definition inRange :: "int \<Rightarrow> int \<Rightarrow> Record \<Rightarrow> bool" where
  "inRange fromVersion toVersion record =
     (Version record \<ge> fromVersion \<and> (toVersion = 0 \<or> Version record \<le> toVersion))"

text \<open>A run of \<open>Save\<close> calls, in the order given.\<close>

fun saveAll :: "memoryStore \<Rightarrow> (string \<times> Record list) list \<Rightarrow> memoryStore" where
  "saveAll m [] = m"
| "saveAll m ((aggregateID, records) # calls) =
     saveAll (snd (memoryStore_Save m aggregateID records)) calls"


section \<open>Collaborators of the Repository\<close>

text \<open>
  The interfaces the Repository is bound to are records of functions. A store carries a
  state of its own, \<open>'s\<close>, which \<open>Save\<close>, \<open>Load\<close> and \<open>SaveAggregate\<close> take and return.
  Contexts are only handed on to the store and are left out.
\<close>

record ('a, 'e) SaveAggregateInput =
  input_AggregateID :: string
  input_Aggregate :: 'a
  input_Events :: "'e list"
  input_Records :: "Record list"

text \<open>
  What a store implements besides \<open>Store\<close>. Both extension interfaces name their method
  \<open>SaveAggregate\<close>, with different parameters, so a Go type implements at most one.
\<close>

datatype ('s, 'a, 'e) StoreExtension =
    PlainStore
  | StoreAggregate "'s \<Rightarrow> string \<Rightarrow> 'a \<Rightarrow> Record list \<Rightarrow> error option \<times> 's"
  | AggregateSaver "'s \<Rightarrow> ('a, 'e) SaveAggregateInput \<Rightarrow> error option \<times> 's"

record ('s, 'a, 'e) Store =
  Save :: "'s \<Rightarrow> string \<Rightarrow> Record list \<Rightarrow> error option \<times> 's"
  Load :: "'s \<Rightarrow> string \<Rightarrow> int \<Rightarrow> int \<Rightarrow> (error + History) \<times> 's"
  extension :: "('s, 'a, 'e) StoreExtension"

text \<open>
  The \<open>Serializer\<close>, the \<open>Event\<close> and \<open>Command\<close> interfaces and the function
  \<open>EventType\<close> belong to other files of the package; the Repository takes them as
  parameters.
\<close>

record 'e Serializer =
  MarshalEvent :: "'e \<Rightarrow> error + Record"
  UnmarshalEvent :: "Record \<Rightarrow> error + 'e"

record 'e EventModel =
  AggregateID :: "'e \<Rightarrow> string"
  EventVersion :: "'e \<Rightarrow> int"
  EventType :: "'e \<Rightarrow> string"

text \<open>
  The aggregate type bound to the Repository: \<open>zero\<close> is the value \<open>reflect.New\<close>
  allocates, \<open>typeName\<close> what \<open>%T\<close> prints and \<open>format\<close> what \<open>%v\<close> prints.
  \<open>On\<close> folds one event into the state. \<open>CommandHandler\<close> is \<open>None\<close> when the type has
  no method \<open>Apply\<close>; the method may change its receiver, so it returns the state too.
\<close>

record ('a, 'e, 'c) Aggregate =
  zero :: 'a
  typeName :: string
  format :: "'a \<Rightarrow> string"
  On :: "'a \<Rightarrow> 'e \<Rightarrow> error + 'a"
  CommandHandler :: "('a \<Rightarrow> 'c \<Rightarrow> (error + 'e list) \<times> 'a) option"

text \<open>
  The Repository. An observer is a callback; it is named by a number and calling it
  is an entry of the trace below. The debug writer only receives log lines and is left
  out.
\<close>

record ('s, 'a, 'e, 'c) Repository =
  prototype :: "('a, 'e, 'c) Aggregate"
  store :: "('s, 'a, 'e) Store"
  serializer :: "'e Serializer"
  observers :: "nat list"
  eventModel :: "'e EventModel"
  Command_AggregateID :: "'c \<Rightarrow> string"

text \<open>
  The effects of the Repository: the state of its store and the trace of the calls it
  has made to the store and to the observers, oldest first, each store write with the
  error it returned.
\<close>

datatype ('a, 'e) call =
    CallLoad string int int
  | CallSave string "Record list" "error option"
  | CallSaveAggregate string 'a "Record list" "error option"
  | CallObserver nat 'e

record ('s, 'a, 'e) world =
  storeState :: 's
  trace :: "('a, 'e) call list"

fun isStoreWrite :: "('a, 'e) call \<Rightarrow> bool" where
  "isStoreWrite (CallSave i records err) = True"
| "isStoreWrite (CallSaveAggregate i a records err) = True"
| "isStoreWrite c = False"

fun isObserverCall :: "('a, 'e) call \<Rightarrow> bool" where
  "isObserverCall (CallObserver k event) = True"
| "isObserverCall c = False"

text \<open>A store write that returned no error, and whether a store implements \<open>StoreAggregate\<close>.\<close>

fun isSuccessfulWrite :: "('a, 'e) call \<Rightarrow> bool" where
  "isSuccessfulWrite (CallSave i records err) = (err = None)"
| "isSuccessfulWrite (CallSaveAggregate i a records err) = (err = None)"
| "isSuccessfulWrite c = False"

fun implementsStoreAggregate :: "('s, 'a, 'e) StoreExtension \<Rightarrow> bool" where
  "implementsStoreAggregate (StoreAggregate f) = True"
| "implementsStoreAggregate x = False"

section \<open>The Repository\<close>

definition newAggregate :: "('s, 'a, 'e, 'c) Repository \<Rightarrow> 'a" where
  "newAggregate r = zero (prototype r)"

text \<open>The loop of \<open>makeRecords\<close>, with the records made so far.\<close>

fun makeRecords_loop :: "'e Serializer \<Rightarrow> 'e list \<Rightarrow> Record list \<Rightarrow> error + Record list" where
  "makeRecords_loop s [] records = Inr records"
| "makeRecords_loop s (event # events) records =
     (case MarshalEvent s event of
        Inl err \<Rightarrow> Inl err
      | Inr record \<Rightarrow> makeRecords_loop s events (records @ [record]))"

definition makeRecords :: "('s, 'a, 'e, 'c) Repository \<Rightarrow> 'e list \<Rightarrow> error + Record list" where
  "makeRecords r events = makeRecords_loop (serializer r) events []"

definition Repository_Save ::
  "('s, 'a, 'e, 'c) Repository \<Rightarrow> ('s, 'a, 'e) world \<Rightarrow> 'e list \<Rightarrow>
     error option \<times> ('s, 'a, 'e) world" where
  "Repository_Save r w events =
     (case events of
        [] \<Rightarrow> (None, w)
      | first # _ \<Rightarrow>
          (let aggregateID = AggregateID (eventModel r) first in
           case makeRecords r events of
             Inl err \<Rightarrow> (Some err, w)
           | Inr records \<Rightarrow>
               (let (err, s) = Save (store r) (storeState w) aggregateID records
                in (err, \<lparr>storeState = s,
                          trace = trace w @ [CallSave aggregateID records err]\<rparr>))))"

text \<open>The replay loop of \<open>Load\<close>, with the aggregate and the version so far.\<close>

fun Load_loop ::
  "('s, 'a, 'e, 'c) Repository \<Rightarrow> 'a \<Rightarrow> int \<Rightarrow> History \<Rightarrow> error + 'a \<times> int" where
  "Load_loop r aggregate version [] = Inr (aggregate, version)"
| "Load_loop r aggregate version (record # history) =
     (case UnmarshalEvent (serializer r) record of
        Inl err \<Rightarrow> Inl err
      | Inr event \<Rightarrow>
          (case On (prototype r) aggregate event of
             Inl err \<Rightarrow>
               Inl (WrapError (''aggregate was unable to handle event, '' @
                               EventType (eventModel r) event) err)
           | Inr aggregate' \<Rightarrow>
               Load_loop r aggregate' (EventVersion (eventModel r) event) history))"

text \<open>
  \<open>Load\<close> returns \<open>(nil, 0, err)\<close> on every failure, here \<open>Inl err\<close>, and the aggregate
  with the last version otherwise.
\<close>

definition Repository_Load ::
  "('s, 'a, 'e, 'c) Repository \<Rightarrow> ('s, 'a, 'e) world \<Rightarrow> string \<Rightarrow>
     (error + 'a \<times> int) \<times> ('s, 'a, 'e) world" where
  "Repository_Load r w aggregateID =
     (let (res, s) = Load (store r) (storeState w) aggregateID 0 0;
          w1 = \<lparr>storeState = s, trace = trace w @ [CallLoad aggregateID 0 0]\<rparr>
      in case res of
           Inl err \<Rightarrow> (Inl err, w1)
         | Inr history \<Rightarrow>
             (if length history = 0
              then (Inl (WrapError (''unable to load '' @ typeName (prototype r) @ '', '' @
                                    aggregateID) errAggregateNotFound), w1)
              else (Load_loop r (newAggregate r) 0 history, w1)))"

text \<open>The loop that folds the generated events into the aggregate.\<close>

fun On_loop :: "('a, 'e, 'c) Aggregate \<Rightarrow> 'a \<Rightarrow> 'e list \<Rightarrow> error + 'a" where
  "On_loop p aggregate [] = Inr aggregate"
| "On_loop p aggregate (event # events) =
     (case On p aggregate event of
        Inl err \<Rightarrow> Inl err
      | Inr aggregate' \<Rightarrow> On_loop p aggregate' events)"

text \<open>Publishing: every event, in order, to every observer, in order.\<close>

definition publish :: "nat list \<Rightarrow> 'e list \<Rightarrow> ('a, 'e) call list" where
  "publish obs events =
     concat (map (\<lambda>event. map (\<lambda>observer. CallObserver observer event) obs) events)"

text \<open>
  The end of \<open>Apply\<close>, once the events are persisted: the version and the observers.
\<close>

definition Apply_finish ::
  "('s, 'a, 'e, 'c) Repository \<Rightarrow> ('s, 'a, 'e) world \<Rightarrow> int \<Rightarrow> 'e list \<Rightarrow>
     (int \<times> error option) \<times> ('s, 'a, 'e) world" where
  "Apply_finish r w version events =
     (let version = (if length events > 0
                     then EventVersion (eventModel r) (last events) else version)
      in ((version, None), w\<lparr>trace := trace w @ publish (observers r) events\<rparr>))"

text \<open>
  \<open>Apply\<close> from the type assertion on the aggregate to its end: the command handler,
  the records, the store and \<open>Apply_finish\<close>. Its arguments are the local variables
  \<open>aggregateID\<close>, \<open>aggregate\<close> and \<open>version\<close> of \<open>Apply\<close> at that point.
\<close>

definition Apply_handle ::
  "('s, 'a, 'e, 'c) Repository \<Rightarrow> ('s, 'a, 'e) world \<Rightarrow> string \<Rightarrow> 'a \<Rightarrow> int \<Rightarrow> 'c \<Rightarrow>
     (int \<times> error option) \<times> ('s, 'a, 'e) world" where
  "Apply_handle r w1 aggregateID aggregate version command =
     (case CommandHandler (prototype r) of
        None \<Rightarrow>
          ((0, Some (ErrorString (''aggregate, '' @ format (prototype r) aggregate @
                       '', does not implement CommandHandler''))), w1)
      | Some h \<Rightarrow>
          (let (handled, aggregate) = h aggregate command in
           case handled of
             Inl err \<Rightarrow> ((0, Some err), w1)
           | Inr events \<Rightarrow>
               (case makeRecords r events of
                  Inl err \<Rightarrow> ((0, Some err), w1)
                | Inr records \<Rightarrow>
                    (case extension (store r) of
                       StoreAggregate saveAggregate \<Rightarrow>
                         (case On_loop (prototype r) aggregate events of
                            Inl err \<Rightarrow>
                              ((0, Some (ErrorString
                                  (''unable to apply generated events to aggregate, '' @
                                   aggregateID @ '': '' @ Error err))), w1)
                          | Inr aggregate \<Rightarrow>
                              (let (err, s) = saveAggregate (storeState w1) aggregateID
                                                aggregate records;
                                   w2 = \<lparr>storeState = s,
                                         trace = trace w1 @
                                           [CallSaveAggregate aggregateID aggregate
                                              records err]\<rparr>
                               in case err of
                                    Some e \<Rightarrow> ((0, Some e), w2)
                                  | None \<Rightarrow> Apply_finish r w2 version events))
                     | _ \<Rightarrow>
                         (let (err, w2) = Repository_Save r w1 events
                          in case err of
                               Some e \<Rightarrow> ((0, Some e), w2)
                             | None \<Rightarrow> Apply_finish r w2 version events)))))"

text \<open>
  \<open>Apply\<close>; a \<open>nil\<close> command is \<open>None\<close>. It returns the version and the error. When
  \<open>Load\<close> fails, whatever the error, the aggregate is a new one and the version is the
  0 that \<open>Load\<close> returned.
\<close>

definition Repository_Apply ::
  "('s, 'a, 'e, 'c) Repository \<Rightarrow> ('s, 'a, 'e) world \<Rightarrow> 'c option \<Rightarrow>
     (int \<times> error option) \<times> ('s, 'a, 'e) world" where
  "Repository_Apply r w cmd =
     (case cmd of
        None \<Rightarrow>
          ((0, Some (ErrorString ''command provided to Repository.Apply may not be nil'')), w)
      | Some command \<Rightarrow>
          (let aggregateID = Command_AggregateID r command in
           if aggregateID = []
           then ((0, Some (ErrorString
                   ''command provided to Repository.Apply may not contain a blank AggregateID'')), w)
           else
             (let (loaded, w1) = Repository_Load r w aggregateID;
                  (aggregate, version) =
                     (case loaded of
                        Inl err \<Rightarrow> (newAggregate r, 0)
                      | Inr (a, v) \<Rightarrow> (a, v))
              in Apply_handle r w1 aggregateID aggregate version command)))"

section \<open>Example collaborators\<close>

text \<open>
  Implementations of the interfaces to run the Repository on, in the manner of the
  package's tests. An event is a kind (one byte), the aggregate id and the version; its
  record holds the version, and the kind followed by the id as data.
\<close>

datatype exampleEvent = ExampleEvent char string int

definition exampleEvents :: "exampleEvent EventModel" where
  "exampleEvents =
     \<lparr>AggregateID = (\<lambda>event. case event of ExampleEvent k i v \<Rightarrow> i),
      EventVersion = (\<lambda>event. case event of ExampleEvent k i v \<Rightarrow> v),
      EventType = (\<lambda>event. case event of ExampleEvent k i v \<Rightarrow> [k])\<rparr>"

definition exampleSerializer :: "exampleEvent Serializer" where
  "exampleSerializer =
     \<lparr>MarshalEvent = (\<lambda>event. case event of
                        ExampleEvent k i v \<Rightarrow> Inr \<lparr>Version = v, Data = k # i\<rparr>),
      UnmarshalEvent = (\<lambda>record. case Data record of
                          [] \<Rightarrow> Inl errInvalidEncoding
                        | k # i \<Rightarrow> Inr (ExampleEvent k i (Version record)))\<rparr>"

text \<open>
  The example aggregate keeps the version of the last event it has folded. It handles
  the kinds \<open>c\<close> (created) and \<open>n\<close> (name set) and rejects every other kind, as the
  \<open>Entity\<close> of the tests does.
\<close>

datatype exampleCommand = Create string | Nop string | Reject string

definition example_On :: "int \<Rightarrow> exampleEvent \<Rightarrow> error + int" where
  "example_On item event =
     (case event of ExampleEvent k i v \<Rightarrow>
        if k = CHR ''c'' then Inr v
        else if k = CHR ''n'' then Inr v
        else Inl (ErrorString ''UnhandledEvent''))"

definition example_Apply :: "int \<Rightarrow> exampleCommand \<Rightarrow> (error + exampleEvent list) \<times> int" where
  "example_Apply item command =
     (case command of
        Create i \<Rightarrow> (Inr [ExampleEvent (CHR ''c'') i (item + 1)], item)
      | Nop i \<Rightarrow> (Inr [], item)
      | Reject i \<Rightarrow> (Inl (ErrorString ''rejected''), item))"

definition exampleCommandID :: "exampleCommand \<Rightarrow> string" where
  "exampleCommandID command = (case command of Create i \<Rightarrow> i | Nop i \<Rightarrow> i | Reject i \<Rightarrow> i)"

definition exampleAggregate :: "(int, exampleEvent, exampleCommand) Aggregate" where
  "exampleAggregate =
     \<lparr>zero = 0, typeName = ''*example.Entity'', format = (\<lambda>item. ''&{}''),
      On = example_On, CommandHandler = Some example_Apply\<rparr>"

text \<open>The in-memory store as a \<open>Store\<close>; it implements neither extension.\<close>

definition memoryStore_Store :: "(memoryStore, 'a, 'e) Store" where
  "memoryStore_Store =
     \<lparr>Save = memoryStore_Save,
      Load = (\<lambda>m aggregateID fromVersion toVersion.
                (memoryStore_Load m aggregateID fromVersion toVersion, m)),
      extension = PlainStore\<rparr>"

text \<open>
  Two stores that keep their records as the in-memory store does and implement one
  extension each, and a store whose \<open>Load\<close> fails with an error of its own.
\<close>

definition storeAggregateStore :: "(memoryStore, int, exampleEvent) Store" where
  "storeAggregateStore =
     memoryStore_Store
       \<lparr>extension := StoreAggregate (\<lambda>m aggregateID aggregate records.
                                       memoryStore_Save m aggregateID records)\<rparr>"

definition aggregateSaverStore :: "(memoryStore, int, exampleEvent) Store" where
  "aggregateSaverStore =
     memoryStore_Store
       \<lparr>extension := AggregateSaver (\<lambda>m input.
                        memoryStore_Save m (input_AggregateID input) (input_Records input))\<rparr>"

definition failingStore :: "(memoryStore, int, exampleEvent) Store" where
  "failingStore =
     memoryStore_Store
       \<lparr>Load := (\<lambda>m aggregateID fromVersion toVersion.
                   (Inl (ErrorString ''connection refused''), m))\<rparr>"

definition exampleRepository ::
  "(memoryStore, int, exampleEvent) Store \<Rightarrow> nat list \<Rightarrow>
     (memoryStore, int, exampleEvent, exampleCommand) Repository" where
  "exampleRepository st obs =
     \<lparr>prototype = exampleAggregate, store = st, serializer = exampleSerializer,
      observers = obs, eventModel = exampleEvents, Command_AggregateID = exampleCommandID\<rparr>"

definition newWorld :: "(memoryStore, int, exampleEvent) world" where
  "newWorld = \<lparr>storeState = newMemoryStore, trace = []\<rparr>"

text \<open>A world whose store holds one event of aggregate \<open>abc\<close>, with version 0.\<close>

definition storedVersion0 :: "(memoryStore, int, exampleEvent) world" where
  "storedVersion0 =
     \<lparr>storeState = snd (memoryStore_Save newMemoryStore ''abc'' [\<lparr>Version = 0, Data = ''nabc''\<rparr>]),
      trace = []\<rparr>"

text \<open>A world whose store holds one event of a kind the example aggregate rejects.\<close>

definition storedUnknownKind :: "(memoryStore, int, exampleEvent) world" where
  "storedUnknownKind =
     \<lparr>storeState = snd (memoryStore_Save newMemoryStore ''abc'' [\<lparr>Version = 1, Data = ''xabc''\<rparr>]),
      trace = []\<rparr>"

section \<open>Evaluation and helper lemmas\<close>

lemmas example_defs = exampleRepository_def exampleAggregate_def exampleSerializer_def
  exampleEvents_def example_On_def example_Apply_def exampleCommandID_def memoryStore_Store_def
  storeAggregateStore_def aggregateSaverStore_def failingStore_def newWorld_def
  storedVersion0_def storedUnknownKind_def newMemoryStore_def memoryStore_Save_def
  memoryStore_Load_def sort_Sort_def

lemmas repository_defs = Repository_Apply_def Apply_handle_def Apply_finish_def
  Repository_Load_def Repository_Save_def makeRecords_def newAggregate_def publish_def Let_def

text \<open>What \<open>sort.Sort\<close> promises holds of its model: a permutation ordered by \<open>Less\<close>.\<close>

lemma sort_Sort_ordered:
  "sorted_wrt (\<lambda>a b. \<not> History_Less b a) (sort_Sort h) \<and> mset (sort_Sort h) = mset h"
proof -
  have "sorted (map Version (sort_key Version h))"
    by (rule sorted_sort_key)
  then have "sorted_wrt (\<lambda>a b. Version a \<le> Version b) (sort_key Version h)"
    by (simp add: sorted_map)
  then show ?thesis
    by (simp add: sort_Sort_def History_Less_def not_less)
qed







lemma IsNotFoundError_wrapped:
  "IsNotFoundError (Some (foldr WrapError msgs err)) = IsNotFoundError (Some err)"
  by (induction msgs) (simp_all add: errAggregateNotFound_def)

lemma Repository_Load_trace:
  "trace (snd (Repository_Load r w i)) = trace w @ [CallLoad i 0 0]"
  by (simp add: Repository_Load_def Let_def split: prod.splits sum.splits)

lemma Apply_finish_eq:
  "Apply_finish r w v evs =
     ((if evs = [] then v else EventVersion (eventModel r) (last evs), None),
      w\<lparr>trace := trace w @ publish (observers r) evs\<rparr>)"
  by (simp add: Apply_finish_def Let_def)

lemma publish_Nil [simp]: "publish obs [] = []"
  by (simp add: publish_def)

lemma publish_observer: "list_all isObserverCall (publish obs evs)"
  by (auto simp: publish_def list_all_iff)

section \<open>The in-memory store\<close>

text \<open>
  C1. \<open>memoryStore.Load\<close> is to return exactly the records in the range from
  \<open>fromVersion\<close> to \<open>toVersion\<close>. It does not: after one \<open>Save\<close> of the versions 1 and 2
  for aggregate \<open>abc\<close>, \<open>Load\<close> from version 2 returns both records, while the range
  filter of the contract keeps only the second.
\<close>

theorem memoryStore_Load_ignores_range:
  "memoryStore_Load
     (saveAll newMemoryStore
        [(''abc'', [\<lparr>Version = 1, Data = ''a''\<rparr>, \<lparr>Version = 2, Data = ''b''\<rparr>])])
     ''abc'' 2 0
     = Inr [\<lparr>Version = 1, Data = ''a''\<rparr>, \<lparr>Version = 2, Data = ''b''\<rparr>]
   \<and> filter (inRange 2 0) [\<lparr>Version = 1, Data = ''a''\<rparr>, \<lparr>Version = 2, Data = ''b''\<rparr>]
     = [\<lparr>Version = 2, Data = ''b''\<rparr>]"
  by (simp add: memoryStore_Load_def memoryStore_Save_def newMemoryStore_def sort_Sort_def
      inRange_def)



section \<open>Load\<close>

text \<open>
  C5. When the store reports no history for an aggregate id, by an error that
  \<open>IsNotFoundError\<close> accepts or by an empty list of records, \<open>Repository.Load\<close> fails
  with an error that \<open>IsNotFoundError\<close> accepts, and the error keeps that
  classification however many times it is wrapped again.
\<close>

theorem Repository_Load_not_found:
  assumes "fst (Load (store r) (storeState w) aggregateID 0 0) = Inl err
             \<and> IsNotFoundError (Some err)
         \<or> fst (Load (store r) (storeState w) aggregateID 0 0) = Inr []"
  shows "\<exists>e. fst (Repository_Load r w aggregateID) = Inl e \<and> IsNotFoundError (Some e)
            \<and> (\<forall>msgs. IsNotFoundError (Some (foldr WrapError msgs e)))"
proof -
  have nf: "IsNotFoundError (Some (WrapError msg errAggregateNotFound))" for msg
    by (simp add: errAggregateNotFound_def)
  obtain res s where l: "Load (store r) (storeState w) aggregateID 0 0 = (res, s)"
    by (cases "Load (store r) (storeState w) aggregateID 0 0")
  from assms l have "res = Inl err \<and> IsNotFoundError (Some err) \<or> res = Inr []" by simp
  then obtain e where "fst (Repository_Load r w aggregateID) = Inl e" "IsNotFoundError (Some e)"
    using l nf by (auto simp: Repository_Load_def Let_def simp del: IsNotFoundError.simps)
  then show ?thesis
    by (auto simp: IsNotFoundError_wrapped simp del: IsNotFoundError.simps)
qed

theorem Repository_Load_not_found_witness:
  "fst (Load (store (exampleRepository memoryStore_Store [])) (storeState newWorld) ''ghost'' 0 0)
     = Inl (WrapError ''no aggregate found with id, ghost'' errAggregateNotFound)
   \<and> IsNotFoundError (Some (WrapError ''no aggregate found with id, ghost'' errAggregateNotFound))
   \<and> (\<exists>e. fst (Repository_Load (exampleRepository memoryStore_Store []) newWorld ''ghost'') = Inl e
          \<and> IsNotFoundError (Some e)
          \<and> IsNotFoundError (Some (WrapError ''outer'' (WrapError ''inner'' e))))"
proof -
  let ?r = "exampleRepository memoryStore_Store [] ::
              (memoryStore, int, exampleEvent, exampleCommand) Repository"
  have h: "fst (Load (store ?r) (storeState newWorld) ''ghost'' 0 0)
     = Inl (WrapError ''no aggregate found with id, ghost'' errAggregateNotFound)"
    by (simp add: example_defs)
  have n: "IsNotFoundError (Some (WrapError ''no aggregate found with id, ghost''
                                     errAggregateNotFound))"
    by (simp add: errAggregateNotFound_def)
  from Repository_Load_not_found[of ?r newWorld "''ghost''", OF disjI1, OF conjI, OF h n]
  obtain e where e: "fst (Repository_Load ?r newWorld ''ghost'') = Inl e"
    "IsNotFoundError (Some e)"
    "\<forall>msgs. IsNotFoundError (Some (foldr WrapError msgs e))"
    by blast
  from e(3) have "IsNotFoundError (Some (foldr WrapError [''outer'', ''inner''] e))"
    by blast
  with e(1,2) h n show ?thesis
    by auto
qed

text \<open>
  What a failure of the replay loop is: the serializer's error as it is, or the
  aggregate's error wrapped under a message that ends in the type of the event.
\<close>

lemma Load_loop_error:
  "Load_loop r aggregate version history = Inl e \<Longrightarrow>
   (\<exists>record. record \<in> set history \<and> UnmarshalEvent (serializer r) record = Inl e)
   \<or> (\<exists>record event a err. record \<in> set history
         \<and> UnmarshalEvent (serializer r) record = Inr event
         \<and> On (prototype r) a event = Inl err
         \<and> e = WrapError (''aggregate was unable to handle event, '' @
                           EventType (eventModel r) event) err)"
proof (induction history arbitrary: aggregate version)
  case Nil
  then show ?case by simp
next
  case (Cons rcd history)
  show ?case
  proof (cases "UnmarshalEvent (serializer r) rcd")
    case (Inl x)
    with Cons.prems show ?thesis by auto
  next
    case ev: (Inr event)
    show ?thesis
    proof (cases "On (prototype r) aggregate event")
      case (Inl err)
      with Cons.prems ev show ?thesis
        by (intro disjI2 exI[of _ rcd] exI[of _ event] exI[of _ aggregate] exI[of _ err])
           simp
    next
      case (Inr a')
      with Cons.prems ev
      have "Load_loop r a' (EventVersion (eventModel r) event) history = Inl e" by simp
      from Cons.IH[OF this] show ?thesis
        by (elim disjE exE conjE) (blast intro: list.set_intros(2))+
    qed
  qed
qed

text \<open>
  C3. When the aggregate's \<open>On\<close> rejects a decoded event, \<open>Load\<close> is to fail with an
  error classified as \<open>UnhandledEvent\<close>. It does not: with one stored event of a kind
  \<open>x\<close> that the aggregate rejects, \<open>Load\<close> fails with the aggregate's own error wrapped
  under a message naming the event type, and \<open>xerrors.Is\<close> does not find
  \<open>errUnhandledEvent\<close> in it.
\<close>

theorem Repository_Load_unhandled_not_classified:
  "fst (Repository_Load (exampleRepository memoryStore_Store []) storedUnknownKind ''abc'')
     = Inl (WrapError ''aggregate was unable to handle event, x''
              (ErrorString ''UnhandledEvent''))
   \<and> \<not> xerrors_Is (WrapError ''aggregate was unable to handle event, x''
                      (ErrorString ''UnhandledEvent'')) errUnhandledEvent"
  by (simp add: example_defs repository_defs errUnhandledEvent_def)

section \<open>Apply\<close>

text \<open>
  C2, as amended. Inside \<open>Apply\<close> every failure of \<open>Load\<close> is swallowed, whatever its
  classification: \<open>Apply\<close> goes on with a new aggregate and the version 0, and its
  result does not depend on the error.
\<close>

theorem Apply_swallows_Load_error:
  assumes "Command_AggregateID r command \<noteq> []"
    and "Repository_Load r w (Command_AggregateID r command) = (Inl err, w1)"
  shows "Repository_Apply r w (Some command) =
           Apply_handle r w1 (Command_AggregateID r command) (newAggregate r) 0 command"
  using assms by (simp add: Repository_Apply_def Let_def)

theorem Apply_swallows_Load_error_witness:
  "Command_AggregateID (exampleRepository failingStore []) (Create ''abc'') \<noteq> []
   \<and> Repository_Load (exampleRepository failingStore []) newWorld ''abc''
       = (Inl (ErrorString ''connection refused''),
          \<lparr>storeState = newMemoryStore, trace = [CallLoad ''abc'' 0 0]\<rparr>)
   \<and> Repository_Apply (exampleRepository failingStore []) newWorld (Some (Create ''abc''))
       = Apply_handle (exampleRepository failingStore [])
           \<lparr>storeState = newMemoryStore, trace = [CallLoad ''abc'' 0 0]\<rparr> ''abc'' 0 0
           (Create ''abc'')"
proof -
  have a: "Command_AggregateID (exampleRepository failingStore []) (Create ''abc'') = ''abc''"
    by (simp add: exampleRepository_def exampleCommandID_def)
  have b: "Repository_Load (exampleRepository failingStore []) newWorld ''abc''
       = (Inl (ErrorString ''connection refused''),
          \<lparr>storeState = newMemoryStore, trace = [CallLoad ''abc'' 0 0]\<rparr>)"
    by (simp add: Repository_Load_def exampleRepository_def failingStore_def
        memoryStore_Store_def newWorld_def)
  have c: "newAggregate (exampleRepository failingStore []) = 0"
    by (simp add: newAggregate_def exampleRepository_def exampleAggregate_def)
  from Apply_swallows_Load_error[of "exampleRepository failingStore []" "Create ''abc''" newWorld
      "ErrorString ''connection refused''"
      "\<lparr>storeState = newMemoryStore, trace = [CallLoad ''abc'' 0 0]\<rparr>"]
  show ?thesis using a b c by simp
qed

text \<open>
  The claim C2 as it was stated fails: the store's \<open>Load\<close> fails with an error that is
  not a not-found error, \<open>Repository.Load\<close> returns it, and \<open>Apply\<close> succeeds.
\<close>

theorem Apply_swallows_other_error:
  "fst (Repository_Load (exampleRepository failingStore []) newWorld ''abc'')
     = Inl (ErrorString ''connection refused'')
   \<and> \<not> IsNotFoundError (Some (ErrorString ''connection refused''))
   \<and> fst (Repository_Apply (exampleRepository failingStore []) newWorld (Some (Create ''abc'')))
     = (1, None)"
  by (simp add: example_defs repository_defs errAggregateNotFound_def)

text \<open>
  C6, as amended. After a successful \<open>Apply\<close> the version returned is the version of
  the last generated event when the command handler produced an event; otherwise it
  is the version that \<open>Load\<close> returned when \<open>Load\<close> succeeded, and 0 when \<open>Load\<close>
  failed and a new aggregate was used.
\<close>

theorem Apply_version:
  assumes "Repository_Apply r w (Some command) = ((version, None), w')"
  shows "\<exists>h events aggregate'.
           CommandHandler (prototype r) = Some h
         \<and> h (case fst (Repository_Load r w (Command_AggregateID r command)) of
                 Inl err \<Rightarrow> newAggregate r | Inr (a, v) \<Rightarrow> a) command = (Inr events, aggregate')
         \<and> version = (if events = []
                      then (case fst (Repository_Load r w (Command_AggregateID r command)) of
                              Inl err \<Rightarrow> 0 | Inr (a, v) \<Rightarrow> v)
                      else EventVersion (eventModel r) (last events))"
  using assms
  by (auto simp: Repository_Apply_def Apply_handle_def Apply_finish_eq Let_def
           split: if_splits prod.splits sum.splits option.splits StoreExtension.splits)

theorem Apply_version_witness:
  "fst (Repository_Apply (exampleRepository memoryStore_Store []) newWorld (Some (Create ''abc'')))
     = (1, None)
   \<and> example_Apply 0 (Create ''abc'') = (Inr [ExampleEvent CHR ''c'' ''abc'' 1], 0)
   \<and> EventVersion exampleEvents (last [ExampleEvent CHR ''c'' ''abc'' 1]) = 1"
proof -
  let ?r = "exampleRepository memoryStore_Store []"
  obtain w' where a: "Repository_Apply ?r newWorld (Some (Create ''abc'')) = ((1, None), w')"
    by (simp add: example_defs repository_defs)
  from Apply_version[OF a] show ?thesis
    using a by (simp add: example_Apply_def exampleEvents_def)
qed

text \<open>
  The claim C6 as it was stated fails where it says that the version is 0 only when
  \<open>Load\<close> found nothing. First, the store holds one event with version 0: \<open>Load\<close>
  succeeds with version 0, and a command that produces no event returns 0. Second,
  the store holds one event that the aggregate rejects: \<open>Load\<close> finds the history and
  fails with an error that is not a not-found error, and the same command returns 0.
\<close>

theorem Apply_version_zero_after_Load:
  "fst (Repository_Load (exampleRepository memoryStore_Store []) storedVersion0 ''abc'')
     = Inr (0, 0)
   \<and> fst (Repository_Apply (exampleRepository memoryStore_Store []) storedVersion0
            (Some (Nop ''abc'')))
     = (0, None)
   \<and> fst (Repository_Load (exampleRepository memoryStore_Store []) storedUnknownKind ''abc'')
     = Inl (WrapError ''aggregate was unable to handle event, x''
              (ErrorString ''UnhandledEvent''))
   \<and> \<not> IsNotFoundError (Some (WrapError ''aggregate was unable to handle event, x''
                                    (ErrorString ''UnhandledEvent'')))
   \<and> fst (Repository_Apply (exampleRepository memoryStore_Store []) storedUnknownKind
            (Some (Nop ''abc'')))
     = (0, None)"
  by (simp add: example_defs repository_defs errAggregateNotFound_def)

text \<open>
  C8, as amended. \<open>Repository.Save\<close> of no events succeeds and leaves the store and
  the trace as they were. An \<open>Apply\<close> whose command handler produces no events calls
  the store to load; on a store that does not implement \<open>StoreAggregate\<close> it then
  succeeds with the version of \<open>Load\<close> and makes no store write; on a store that does,
  it still calls \<open>SaveAggregate\<close>, with the aggregate and no records, and returns what
  that call returns.
\<close>

theorem Save_empty_Apply_no_events:
  assumes "Command_AggregateID r command \<noteq> []"
    and "Repository_Load r w (Command_AggregateID r command) = (loaded, w1)"
    and "CommandHandler (prototype r) = Some h"
    and "h (case loaded of Inl err \<Rightarrow> newAggregate r | Inr (a, v) \<Rightarrow> a) command
           = (Inr [], aggregate')"
  shows "Repository_Save r w0 [] = (None, w0)
       \<and> trace w1 = trace w @ [CallLoad (Command_AggregateID r command) 0 0]
       \<and> (\<not> implementsStoreAggregate (extension (store r)) \<longrightarrow>
            Repository_Apply r w (Some command) =
              ((case loaded of Inl err \<Rightarrow> 0 | Inr (a, v) \<Rightarrow> v, None), w1)
          \<and> filter isStoreWrite (trace w1) = filter isStoreWrite (trace w))
       \<and> (\<forall>saveAggregate. extension (store r) = StoreAggregate saveAggregate \<longrightarrow>
            Repository_Apply r w (Some command) =
              ((case fst (saveAggregate (storeState w1) (Command_AggregateID r command)
                            aggregate' []) of
                  None \<Rightarrow> (case loaded of Inl err \<Rightarrow> 0 | Inr (a, v) \<Rightarrow> v)
                | Some e \<Rightarrow> 0,
                fst (saveAggregate (storeState w1) (Command_AggregateID r command)
                       aggregate' [])),
               \<lparr>storeState = snd (saveAggregate (storeState w1) (Command_AggregateID r command)
                                    aggregate' []),
                trace = trace w @
                  [CallLoad (Command_AggregateID r command) 0 0,
                   CallSaveAggregate (Command_AggregateID r command) aggregate' []
                     (fst (saveAggregate (storeState w1) (Command_AggregateID r command)
                             aggregate' []))]\<rparr>))"
proof -
  have s: "Repository_Save r w0 [] = (None, w0)" for w0
    by (simp add: Repository_Save_def)
  have t: "trace w1 = trace w @ [CallLoad (Command_AggregateID r command) 0 0]"
    using Repository_Load_trace[of r w "Command_AggregateID r command"] assms(2) by simp
  have m: "makeRecords r [] = Inr []"
    by (simp add: makeRecords_def)
  have plain: "Repository_Apply r w (Some command) =
           ((case loaded of Inl err \<Rightarrow> 0 | Inr (a, v) \<Rightarrow> v, None), w1)"
    if "\<not> implementsStoreAggregate (extension (store r))"
    using assms that s m
    by (cases "extension (store r)")
       (auto simp: Repository_Apply_def Apply_handle_def Apply_finish_eq Let_def
             split: sum.splits prod.splits)
  have agg: "Repository_Apply r w (Some command) =
              ((case fst (f (storeState w1) (Command_AggregateID r command) aggregate' []) of
                  None \<Rightarrow> (case loaded of Inl err \<Rightarrow> 0 | Inr (a, v) \<Rightarrow> v)
                | Some e \<Rightarrow> 0,
                fst (f (storeState w1) (Command_AggregateID r command) aggregate' [])),
               \<lparr>storeState = snd (f (storeState w1) (Command_AggregateID r command) aggregate' []),
                trace = trace w @
                  [CallLoad (Command_AggregateID r command) 0 0,
                   CallSaveAggregate (Command_AggregateID r command) aggregate' []
                     (fst (f (storeState w1) (Command_AggregateID r command) aggregate' []))]\<rparr>)"
    if "extension (store r) = StoreAggregate f" for f
    using assms that m t
    by (auto simp: Repository_Apply_def Apply_handle_def Apply_finish_eq Let_def
             split: sum.splits prod.splits option.splits)
  from s t plain agg show ?thesis by simp
qed


theorem Save_empty_Apply_no_events_witness:
  "Repository_Save (exampleRepository memoryStore_Store [7]) newWorld [] = (None, newWorld)
   \<and> Repository_Apply (exampleRepository memoryStore_Store [7]) storedVersion0 (Some (Nop ''abc''))
       = ((0, None), storedVersion0\<lparr>trace := [CallLoad ''abc'' 0 0]\<rparr>)
   \<and> fst (Repository_Apply (exampleRepository storeAggregateStore [7]) storedVersion0
            (Some (Nop ''abc''))) = (0, None)
   \<and> trace (snd (Repository_Apply (exampleRepository storeAggregateStore [7]) storedVersion0
                   (Some (Nop ''abc''))))
       = [CallLoad ''abc'' 0 0, CallSaveAggregate ''abc'' 0 [] None]"
proof -
  let ?r = "exampleRepository memoryStore_Store [7]"
  let ?q = "exampleRepository storeAggregateStore [7]"
  let ?w1 = "storedVersion0\<lparr>trace := [CallLoad ''abc'' 0 0]\<rparr>"
  let ?f = "\<lambda>m aggregateID (aggregate::int) records. memoryStore_Save m aggregateID records"
  have a: "Command_AggregateID ?r (Nop ''abc'') = ''abc''"
    "Command_AggregateID ?q (Nop ''abc'') = ''abc''"
    by (simp_all add: exampleRepository_def exampleCommandID_def)
  have b: "Repository_Load ?r storedVersion0 ''abc'' = (Inr (0, 0), ?w1)"
    "Repository_Load ?q storedVersion0 ''abc'' = (Inr (0, 0), ?w1)"
    by (simp_all add: example_defs repository_defs)
  have c: "CommandHandler (prototype ?r) = Some example_Apply"
    "CommandHandler (prototype ?q) = Some example_Apply"
    by (simp_all add: exampleRepository_def exampleAggregate_def)
  have d: "example_Apply 0 (Nop ''abc'') = (Inr [], 0)"
    by (simp add: example_Apply_def)
  have e: "\<not> implementsStoreAggregate (extension (store ?r))"
    by (simp add: exampleRepository_def memoryStore_Store_def)
  have f: "extension (store ?q) = StoreAggregate ?f"
    by (simp add: exampleRepository_def storeAggregateStore_def memoryStore_Store_def)
  have g: "fst (?f (storeState ?w1) ''abc'' 0 []) = None"
    by (simp add: memoryStore_Save_def Let_def)
  from Save_empty_Apply_no_events[of ?r "Nop ''abc''" storedVersion0 "Inr (0, 0)" ?w1
      example_Apply 0 newWorld]
  have p: "Repository_Save ?r newWorld [] = (None, newWorld)
         \<and> Repository_Apply ?r storedVersion0 (Some (Nop ''abc'')) = ((0, None), ?w1)"
    using a b c d e by simp
  have a': "Command_AggregateID ?q (Nop ''abc'') \<noteq> []"
    using a by simp
  have b': "Repository_Load ?q storedVersion0 (Command_AggregateID ?q (Nop ''abc''))
              = (Inr (0, 0), ?w1)"
    using a b by simp
  have d': "example_Apply (case Inr (0, 0) of Inl err \<Rightarrow> newAggregate ?q | Inr (a, v) \<Rightarrow> a)
              (Nop ''abc'') = (Inr [], 0)"
    using d by simp
  note t = Save_empty_Apply_no_events[OF a' b' c(2) d', of newWorld]
  from t[THEN conjunct2, THEN conjunct2, THEN conjunct2, rule_format, OF f] g a
  have q: "fst (Repository_Apply ?q storedVersion0 (Some (Nop ''abc''))) = (0, None)
         \<and> trace (snd (Repository_Apply ?q storedVersion0 (Some (Nop ''abc''))))
             = [CallLoad ''abc'' 0 0, CallSaveAggregate ''abc'' 0 [] None]"
    by (simp add: storedVersion0_def)
  from p q show ?thesis by simp
qed

text \<open>
  The claim C8 as it was stated fails on a store that implements \<open>StoreAggregate\<close>: a
  command that produces no event still reaches \<open>SaveAggregate\<close>, with no records.
\<close>

theorem Apply_no_events_SaveAggregate:
  "fst (Repository_Apply (exampleRepository storeAggregateStore []) newWorld (Some (Nop ''abc'')))
     = (0, None)
   \<and> trace (snd (Repository_Apply (exampleRepository storeAggregateStore []) newWorld
                  (Some (Nop ''abc''))))
     = [CallLoad ''abc'' 0 0, CallSaveAggregate ''abc'' 0 [] None]"
  by (simp add: example_defs repository_defs)

text \<open>
  On a store that implements \<open>StoreAggregate\<close>, \<open>Apply\<close> folds the generated events
  into the aggregate and, when that succeeds, calls \<open>SaveAggregate\<close> with the folded
  aggregate and the records; it never calls \<open>Save\<close>.
\<close>

lemma Apply_handle_StoreAggregate:
  assumes "extension (store r) = StoreAggregate f"
    and "CommandHandler (prototype r) = Some h"
    and "h a c = (Inr events, a2)"
    and "makeRecords r events = Inr records"
  shows "Apply_handle r w1 i a v c =
           (case On_loop (prototype r) a2 events of
              Inl err \<Rightarrow>
                ((0, Some (ErrorString (''unable to apply generated events to aggregate, '' @
                                        i @ '': '' @ Error err))), w1)
            | Inr a3 \<Rightarrow>
                (let w2 = \<lparr>storeState = snd (f (storeState w1) i a3 records),
                           trace = trace w1 @ [CallSaveAggregate i a3 records
                                                 (fst (f (storeState w1) i a3 records))]\<rparr>
                 in case fst (f (storeState w1) i a3 records) of
                      Some e \<Rightarrow> ((0, Some e), w2)
                    | None \<Rightarrow> Apply_finish r w2 v events))"
  using assms
  by (simp add: Apply_handle_def Let_def split: sum.splits prod.splits option.splits)

text \<open>
  C4. A store that advertises \<open>AggregateSaver\<close> is to be saved through that
  capability and never through \<open>Save\<close>. It is not: \<open>Apply\<close> only asks the store for
  \<open>StoreAggregate\<close>, so on a store that implements \<open>AggregateSaver\<close> the new record goes
  through plain \<open>Save\<close> and \<open>SaveAggregate\<close> is never called.
\<close>

theorem Apply_ignores_AggregateSaver:
  "trace (snd (Repository_Apply (exampleRepository aggregateSaverStore [7]) newWorld
                 (Some (Create ''abc''))))
     = [CallLoad ''abc'' 0 0,
        CallSave ''abc'' [\<lparr>Version = 1, Data = ''cabc''\<rparr>] None,
        CallObserver 7 (ExampleEvent CHR ''c'' ''abc'' 1)]"
  by (simp add: example_defs repository_defs)

text \<open>The shapes a run of \<open>Save\<close> and of \<open>Apply\<close> can leave in the trace.\<close>

lemma Repository_Save_cases:
  assumes "Repository_Save r w events = (err, w2)"
  shows "(events = [] \<and> err = None \<and> w2 = w)
       \<or> (events \<noteq> [] \<and> err \<noteq> None \<and> w2 = w)
       \<or> (events \<noteq> [] \<and> (\<exists>i records. trace w2 = trace w @ [CallSave i records err]))"
  using assms
  by (auto simp: Repository_Save_def Let_def split: list.splits sum.splits prod.splits)

lemma Apply_handle_cases:
  assumes "Apply_handle r w1 i a v c = ((version, err), w')"
  shows "(err \<noteq> None \<and> version = 0 \<and>
            (trace w' = trace w1 \<or> (\<exists>x. trace w' = trace w1 @ [x] \<and> isStoreWrite x)))
       \<or> (err = None \<and> trace w' = trace w1)
       \<or> (err = None \<and> (\<exists>x evs. trace w' = trace w1 @ [x] @ publish (observers r) evs
                                 \<and> isSuccessfulWrite x))"
proof (cases "CommandHandler (prototype r)")
  case None
  with assms show ?thesis by (auto simp: Apply_handle_def)
next
  case (Some h)
  obtain handled a2 where h: "h a c = (handled, a2)" by (cases "h a c")
  show ?thesis
  proof (cases handled)
    case (Inl e)
    with assms Some h show ?thesis by (auto simp: Apply_handle_def)
  next
    case (Inr events)
    show ?thesis
    proof (cases "makeRecords r events")
      case (Inl e)
      with assms Some h Inr show ?thesis by (auto simp: Apply_handle_def)
    next
      case mr: (Inr records)
      show ?thesis
      proof (cases "implementsStoreAggregate (extension (store r))")
        case True
        then obtain f where f: "extension (store r) = StoreAggregate f"
          by (cases "extension (store r)") auto
        with assms Some h Inr mr show ?thesis
          by (auto simp: Apply_handle_def Apply_finish_eq Let_def
                   split: sum.splits prod.splits option.splits)
      next
        case False
        obtain e w2 where s: "Repository_Save r w1 events = (e, w2)"
          by (cases "Repository_Save r w1 events")
        from False assms Some h Inr mr s
        have r: "(e \<noteq> None \<and> version = 0 \<and> err = e \<and> w' = w2)
               \<or> (e = None \<and> err = None
                    \<and> trace w' = trace w2 @ publish (observers r) events)"
          by (cases "extension (store r)")
             (auto simp: Apply_handle_def Apply_finish_eq Let_def split: option.splits)
        from Repository_Save_cases[OF s] r show ?thesis
          by (elim disjE conjE exE) (auto intro: exI[of _ events])
      qed
    qed
  qed
qed

lemma isSuccessfulWrite_store: "isSuccessfulWrite x \<Longrightarrow> \<not> isObserverCall x"
  by (cases x) auto

lemma isStoreWrite_store: "isStoreWrite x \<Longrightarrow> \<not> isObserverCall x"
  by (cases x) auto

lemma Apply_cases:
  assumes "Repository_Apply r w cmd = ((version, err), w')"
  shows "(err \<noteq> None \<and> version = 0 \<and> trace w' = trace w)
       \<or> (\<exists>i. (err \<noteq> None \<and> version = 0 \<and>
            (trace w' = trace w @ [CallLoad i 0 0]
             \<or> (\<exists>x. trace w' = trace w @ [CallLoad i 0 0, x] \<and> isStoreWrite x)))
       \<or> (err = None \<and> trace w' = trace w @ [CallLoad i 0 0])
       \<or> (err = None \<and> (\<exists>x evs. trace w' = trace w @ [CallLoad i 0 0, x] @ publish (observers r) evs
                                 \<and> isSuccessfulWrite x)))"
proof (cases cmd)
  case None
  with assms show ?thesis by (auto simp: Repository_Apply_def)
next
  case (Some command)
  show ?thesis
  proof (cases "Command_AggregateID r command = []")
    case True
    with assms Some show ?thesis by (auto simp: Repository_Apply_def Let_def)
  next
    case False
    let ?i = "Command_AggregateID r command"
    obtain loaded w1 where l: "Repository_Load r w ?i = (loaded, w1)"
      by (cases "Repository_Load r w ?i")
    have t: "trace w1 = trace w @ [CallLoad ?i 0 0]"
      using Repository_Load_trace[of r w ?i] l by simp
    obtain a v where av: "(case loaded of Inl err \<Rightarrow> (newAggregate r, 0) | Inr (a, v) \<Rightarrow> (a, v)) = (a, v)"
      by (cases "(case loaded of Inl err \<Rightarrow> (newAggregate r, 0::int) | Inr (a, v) \<Rightarrow> (a, v))")
    from assms Some False l av
    have "Apply_handle r w1 ?i a v command = ((version, err), w')"
      by (simp add: Repository_Apply_def Let_def)
    from Apply_handle_cases[OF this]
    have "(err \<noteq> None \<and> version = 0 \<and>
            (trace w' = trace w @ [CallLoad ?i 0 0]
             \<or> (\<exists>x. trace w' = trace w @ [CallLoad ?i 0 0, x] \<and> isStoreWrite x)))
       \<or> (err = None \<and> trace w' = trace w @ [CallLoad ?i 0 0])
       \<or> (err = None \<and> (\<exists>x evs. trace w' = trace w @ [CallLoad ?i 0 0, x] @ publish (observers r) evs
                                 \<and> isSuccessfulWrite x))"
      unfolding t by simp
    then show ?thesis
      by blast
  qed
qed

text \<open>
  C10. Whatever \<open>Apply\<close> returns, the calls it makes are first calls to the store and
  then calls to the observers. When it returns an error, whichever step failed, the
  version is 0 and no observer is called. When an observer is called, \<open>Apply\<close> has
  succeeded and the call just before the first observer is a store write that
  returned no error.
\<close>

theorem Apply_error_version_observers:
  assumes "Repository_Apply r w cmd = ((version, err), w')"
  shows "\<exists>calls published. trace w' = trace w @ calls @ published
           \<and> list_all (\<lambda>c. \<not> isObserverCall c) calls
           \<and> list_all isObserverCall published
           \<and> (err \<noteq> None \<longrightarrow> version = 0 \<and> published = [])
           \<and> (published \<noteq> [] \<longrightarrow> err = None \<and> calls \<noteq> [] \<and> isSuccessfulWrite (last calls))"
proof -
  from Apply_cases[OF assms]
  consider (a) "err \<noteq> None" "version = 0" "trace w' = trace w"
    | (b) i where "err \<noteq> None" "version = 0" "trace w' = trace w @ [CallLoad i 0 0]"
    | (c) i x where "err \<noteq> None" "version = 0" "trace w' = trace w @ [CallLoad i 0 0, x]" "isStoreWrite x"
    | (d) i where "err = None" "trace w' = trace w @ [CallLoad i 0 0]"
    | (e) i x evs where "err = None" "trace w' = trace w @ [CallLoad i 0 0, x] @ publish (observers r) evs"
        "isSuccessfulWrite x"
    by blast
  then show ?thesis
  proof cases
    case a
    then show ?thesis by (intro exI[of _ "[]"]) simp
  next
    case b
    then show ?thesis by (intro exI[of _ "[CallLoad i 0 0]"] exI[of _ "[]"]) simp
  next
    case c
    then show ?thesis
      by (intro exI[of _ "[CallLoad i 0 0, x]"] exI[of _ "[]"]) (simp add: isStoreWrite_store)
  next
    case d
    then show ?thesis by (intro exI[of _ "[CallLoad i 0 0]"] exI[of _ "[]"]) simp
  next
    case e
    then show ?thesis
      by (intro exI[of _ "[CallLoad i 0 0, x]"] exI[of _ "publish (observers r) evs"])
         (simp add: isSuccessfulWrite_store publish_observer)
  qed
qed


theorem Apply_error_version_observers_witness:
  "fst (Repository_Apply (exampleRepository memoryStore_Store [7, 8]) newWorld
          (Some (Reject ''abc'')))
     = (0, Some (ErrorString ''rejected''))
   \<and> (\<exists>calls. trace (snd (Repository_Apply (exampleRepository memoryStore_Store [7, 8]) newWorld
                             (Some (Reject ''abc''))))
                 = trace newWorld @ calls
              \<and> list_all (\<lambda>c. \<not> isObserverCall c) calls)"
proof -
  let ?r = "exampleRepository memoryStore_Store [7, 8]"
  obtain w' where a: "Repository_Apply ?r newWorld (Some (Reject ''abc''))
                        = ((0, Some (ErrorString ''rejected'')), w')"
    by (simp add: example_defs repository_defs)
  from Apply_error_version_observers[OF a] obtain calls published where
    t: "trace w' = trace newWorld @ calls @ published"
    and c: "list_all (\<lambda>c. \<not> isObserverCall c) calls"
    and n: "Some (ErrorString ''rejected'') \<noteq> None \<longrightarrow> (0::int) = 0 \<and> published = []"
    by blast
  from n have "published = []" by simp
  with t c a show ?thesis by auto
qed

end
